theory Spec2Isabelle
  imports Complex_Main
begin

section \<open>Numbers: float64 values with exact arithmetic on the finite ones\<close>

text \<open>
  The module computes on numpy float64 arrays. A value is a finite real, one of the two
  infinities, or NaN. Arithmetic on finite values is exact (rounding, overflow and
  underflow are not part of the model) and zero is the positive zero; the special
  values follow IEEE 754 as numpy applies it: a finite nonzero number divided by zero
  is an infinity, \<open>0/0\<close> and \<open>inf - inf\<close> are NaN, every comparison with NaN is false.
\<close>

datatype fval = Fin real | PInf | NInf | NaN

datatype error = ValueError | TypeError | IndexError

fun fneg :: "fval \<Rightarrow> fval" where
  "fneg (Fin x) = Fin (- x)"
| "fneg PInf = NInf"
| "fneg NInf = PInf"
| "fneg NaN = NaN"

fun fadd :: "fval \<Rightarrow> fval \<Rightarrow> fval" where
  "fadd NaN _ = NaN"
| "fadd _ NaN = NaN"
| "fadd (Fin x) (Fin y) = Fin (x + y)"
| "fadd PInf NInf = NaN"
| "fadd NInf PInf = NaN"
| "fadd PInf _ = PInf"
| "fadd NInf _ = NInf"
| "fadd (Fin x) PInf = PInf"
| "fadd (Fin x) NInf = NInf"

definition fsub :: "fval \<Rightarrow> fval \<Rightarrow> fval" where
  "fsub x y = fadd x (fneg y)"

text \<open>The sign of a value that is not NaN: \<open>-1\<close>, \<open>0\<close> or \<open>1\<close>.\<close>

fun fsign :: "fval \<Rightarrow> int" where
  "fsign (Fin x) = (if x < 0 then - 1 else if x = 0 then 0 else 1)"
| "fsign PInf = 1"
| "fsign NInf = - 1"
| "fsign NaN = 0"

definition inf_of_sign :: "int \<Rightarrow> fval" where
  "inf_of_sign s = (if s < 0 then NInf else if s = 0 then NaN else PInf)"

fun fmul :: "fval \<Rightarrow> fval \<Rightarrow> fval" where
  "fmul NaN _ = NaN"
| "fmul _ NaN = NaN"
| "fmul (Fin x) (Fin y) = Fin (x * y)"
| "fmul x y = inf_of_sign (fsign x * fsign y)"

fun fdiv :: "fval \<Rightarrow> fval \<Rightarrow> fval" where
  "fdiv NaN _ = NaN"
| "fdiv _ NaN = NaN"
| "fdiv (Fin x) (Fin y) = (if y = 0 then inf_of_sign (fsign (Fin x)) else Fin (x / y))"
| "fdiv (Fin x) _ = Fin 0"
| "fdiv x (Fin y) = (if y < 0 then fneg x else x)"
| "fdiv _ _ = NaN"

fun fexp :: "fval \<Rightarrow> fval" where
  "fexp (Fin x) = Fin (exp x)"
| "fexp PInf = PInf"
| "fexp NInf = Fin 0"
| "fexp NaN = NaN"

fun flog :: "fval \<Rightarrow> fval" where
  "flog (Fin x) = (if x < 0 then NaN else if x = 0 then NInf else Fin (ln x))"
| "flog PInf = PInf"
| "flog NInf = NaN"
| "flog NaN = NaN"

fun fabs :: "fval \<Rightarrow> fval" where
  "fabs (Fin x) = Fin \<bar>x\<bar>"
| "fabs PInf = PInf"
| "fabs NInf = PInf"
| "fabs NaN = NaN"

text \<open>\<open>x < y\<close> on floats; false as soon as one side is NaN.\<close>

fun flt :: "fval \<Rightarrow> fval \<Rightarrow> bool" where
  "flt NaN _ = False"
| "flt _ NaN = False"
| "flt (Fin x) (Fin y) = (x < y)"
| "flt NInf NInf = False"
| "flt NInf _ = True"
| "flt PInf _ = False"
| "flt (Fin x) PInf = True"
| "flt (Fin x) NInf = False"

text \<open>Python's truth value of a float (\<open>if clear_ratio:\<close>): everything but zero is true.\<close>

definition truthy :: "fval \<Rightarrow> bool" where
  "truthy x = (x \<noteq> Fin 0)"

text \<open>The largest finite float64, which \<open>np.nan_to_num\<close> puts in place of an infinity.\<close>

definition float_max :: real where
  "float_max = (2 ^ 53 - 1) * 2 ^ 971"

fun nan_to_num :: "fval \<Rightarrow> fval" where
  "nan_to_num NaN = Fin 0"
| "nan_to_num PInf = Fin float_max"
| "nan_to_num NInf = Fin (- float_max)"
| "nan_to_num (Fin x) = Fin x"

text \<open>The minimum of two floats as \<open>np.min\<close> folds it: NaN wins.\<close>

fun fmin2 :: "fval \<Rightarrow> fval \<Rightarrow> fval" where
  "fmin2 NaN _ = NaN"
| "fmin2 _ NaN = NaN"
| "fmin2 x y = (if flt y x then y else x)"

section \<open>Arrays\<close>

text \<open>
  A numpy array is its shape and its elements in row-major order; a zero-dimensional
  array (shape \<open>[]\<close>, one element) also stands for a numpy scalar. All arrays are
  float64.
\<close>

datatype ndarray = NDArray (shape: "nat list") (data: "fval list")

definition wf_nd :: "ndarray \<Rightarrow> bool" where
  "wf_nd a = (length (data a) = prod_list (shape a))"

definition nd_map :: "(fval \<Rightarrow> fval) \<Rightarrow> ndarray \<Rightarrow> ndarray" where
  "nd_map f a = NDArray (shape a) (map f (data a))"

subsection \<open>Broadcasting of two arrays\<close>

text \<open>
  \<open>bc_shape\<close> works on the reversed shapes (last axis first): two axes go together
  when they are equal or one of them is 1; the shorter shape is extended by ones.
\<close>

fun bc_shape :: "nat list \<Rightarrow> nat list \<Rightarrow> nat list option" where
  "bc_shape [] ys = Some ys"
| "bc_shape xs [] = Some xs"
| "bc_shape (x # xs) (y # ys) =
     (if x = y \<or> y = 1 then map_option ((#) x) (bc_shape xs ys)
      else if x = 1 then map_option ((#) y) (bc_shape xs ys)
      else None)"

definition chunks :: "nat \<Rightarrow> nat \<Rightarrow> 'a list \<Rightarrow> 'a list list" where
  "chunks k m d = map (\<lambda>i. take k (drop (i * k) d)) [0..<m]"

text \<open>The elements of an array of shape \<open>ms\<close> repeated to fill the shape \<open>ns\<close>
  (of the same length, every axis of \<open>ms\<close> equal to that of \<open>ns\<close> or 1).\<close>

fun bc_data :: "nat list \<Rightarrow> nat list \<Rightarrow> 'a list \<Rightarrow> 'a list" where
  "bc_data (m # ms) (n # ns) d =
     (if m = n then concat (map (bc_data ms ns) (chunks (prod_list ms) m d))
      else concat (replicate n (bc_data ms ns d)))"
| "bc_data _ _ d = d"

definition broadcast_to :: "nat list \<Rightarrow> ndarray \<Rightarrow> fval list" where
  "broadcast_to s a =
     bc_data (replicate (length s - length (shape a)) 1 @ shape a) s (data a)"

text \<open>An element-wise binary operation \<open>a op b\<close>; shapes that do not broadcast
  raise ValueError.\<close>

definition nd_binop :: "(fval \<Rightarrow> fval \<Rightarrow> fval) \<Rightarrow> ndarray \<Rightarrow> ndarray \<Rightarrow> error + ndarray" where
  "nd_binop f a b =
     (case bc_shape (rev (shape a)) (rev (shape b)) of
        None \<Rightarrow> Inl ValueError
      | Some rs \<Rightarrow>
          Inr (NDArray (rev rs)
                 (map2 f (broadcast_to (rev rs) a) (broadcast_to (rev rs) b))))"

text \<open>The augmented form \<open>a op= b\<close> on a value \<open>a\<close> that an operation has returned.
  An array is updated in place, so the result has to fit its shape; a zero-dimensional
  result of an operation is a numpy scalar, which is immutable, and Python then
  evaluates \<open>a = a op b\<close>.\<close>

definition nd_ibinop :: "(fval \<Rightarrow> fval \<Rightarrow> fval) \<Rightarrow> ndarray \<Rightarrow> ndarray \<Rightarrow> error + ndarray" where
  "nd_ibinop f a b =
     (case nd_binop f a b of
        Inl e \<Rightarrow> Inl e
      | Inr r \<Rightarrow> if shape a = [] \<or> shape r = shape a then Inr r else Inl ValueError)"

subsection \<open>Indexing, iteration, masks, reductions\<close>

text \<open>\<open>a[i]\<close> for \<open>i \<ge> 0\<close>: the \<open>i\<close>-th item along the first axis.\<close>

definition nd_item :: "nat list \<Rightarrow> fval list \<Rightarrow> nat \<Rightarrow> ndarray" where
  "nd_item ns d i = NDArray ns (take (prod_list ns) (drop (i * prod_list ns) d))"

definition nd_getitem :: "ndarray \<Rightarrow> nat \<Rightarrow> error + ndarray" where
  "nd_getitem a i =
     (case shape a of
        [] \<Rightarrow> Inl IndexError
      | n # ns \<Rightarrow> if i < n then Inr (nd_item ns (data a) i) else Inl IndexError)"

text \<open>Iterating over an array yields its items along the first axis; a
  zero-dimensional array is not iterable. \<open>len\<close> is the length of the first axis.\<close>

definition nd_items :: "ndarray \<Rightarrow> error + ndarray list" where
  "nd_items a =
     (case shape a of
        [] \<Rightarrow> Inl TypeError
      | n # ns \<Rightarrow> Inr (map (nd_item ns (data a)) [0..<n]))"

definition nd_len :: "ndarray \<Rightarrow> error + nat" where
  "nd_len a = (case shape a of [] \<Rightarrow> Inl TypeError | n # ns \<Rightarrow> Inr n)"

text \<open>Conversion of an array to one float, as a C extension asks for it: only an
  array with exactly one element converts.\<close>

definition as_float :: "ndarray \<Rightarrow> fval option" where
  "as_float a = (case data a of [x] \<Rightarrow> Some x | _ \<Rightarrow> None)"

definition ones_like :: "ndarray \<Rightarrow> ndarray" where
  "ones_like a = NDArray (shape a) (replicate (length (data a)) (Fin 1))"

text \<open>The boolean mask \<open>a > c\<close>, the selection \<open>a[mask]\<close> (a one-dimensional array
  of the chosen elements, in order) and the assignment \<open>a[mask] = vals\<close>.\<close>

definition nd_gt :: "ndarray \<Rightarrow> fval \<Rightarrow> bool list" where
  "nd_gt a c = map (\<lambda>x. flt c x) (data a)"

definition mask_select :: "bool list \<Rightarrow> fval list \<Rightarrow> fval list" where
  "mask_select ms xs = map snd (filter fst (zip ms xs))"

fun mask_assign :: "fval list \<Rightarrow> bool list \<Rightarrow> fval list \<Rightarrow> fval list" where
  "mask_assign (x # xs) (True # ms) (v # vs) = v # mask_assign xs ms vs"
| "mask_assign (x # xs) (False # ms) vs = x # mask_assign xs ms vs"
| "mask_assign xs _ _ = xs"

text \<open>\<open>np.min\<close> over all elements; an empty array has no minimum.\<close>

definition np_min :: "ndarray \<Rightarrow> error + fval" where
  "np_min a = (case data a of [] \<Rightarrow> Inl ValueError | x # xs \<Rightarrow> Inr (foldl fmin2 x xs))"


text \<open>
  Python's \<open>sorted\<close> over an array compares its items with \<open><\<close>. Items that are
  arrays compare element-wise, and the truth value of the comparison exists only when
  it has exactly one element (ValueError otherwise); a list of fewer than two items is
  returned without any comparison (items without elements are taken as ambiguous too,
  as current numpy does). On floats without NaN the result is the ascending
  order, built here by insertion; with NaN among them \<open><\<close> is no order and the
  arrangement Python returns depends on its sorting algorithm, so every statement below
  about sorted values is for data free of NaN.
\<close>

fun insort_lt :: "fval \<Rightarrow> fval list \<Rightarrow> fval list" where
  "insort_lt x [] = [x]"
| "insort_lt x (y # ys) = (if flt x y then x # y # ys else y # insort_lt x ys)"

definition sort_lt :: "fval list \<Rightarrow> fval list" where
  "sort_lt xs = foldr insort_lt xs []"

definition py_sorted :: "ndarray \<Rightarrow> error + ndarray list" where
  "py_sorted a =
     (case nd_items a of
        Inl e \<Rightarrow> Inl e
      | Inr its \<Rightarrow>
          if length its \<le> 1 then Inr its
          else if prod_list (tl (shape a)) \<noteq> 1 then Inl ValueError
          else Inr (map (\<lambda>v. NDArray (tl (shape a)) [v]) (sort_lt (data a))))"

text \<open>\<open>xs[-2 if n > 1 else -1]\<close> on a Python list, \<open>n\<close> being the value of \<open>len\<close>.\<close>

definition py_index_from_end :: "'a list \<Rightarrow> nat \<Rightarrow> error + 'a" where
  "py_index_from_end xs k =
     (if k \<le> length xs \<and> 0 < k then Inr (xs ! (length xs - k)) else Inl IndexError)"

section \<open>The root finder\<close>

text \<open>
  Modelled from the spec: \<open>scipy.optimize.brentq\<close> is a library routine, not code of the
  repository. A bracket whose end points give residuals of the same sign is rejected
  with ValueError (sections 4.6 and 7 of the specification); what the iteration returns
  on an accepted bracket is the parameter \<open>search\<close>.
\<close>

type_synonym root_search = "(fval \<Rightarrow> fval) \<Rightarrow> fval \<Rightarrow> fval \<Rightarrow> error + fval"

definition brentq :: "root_search \<Rightarrow> (fval \<Rightarrow> fval) \<Rightarrow> fval \<Rightarrow> fval \<Rightarrow> error + fval" where
  "brentq search f a b =
     (if flt (Fin 0) (fmul (f a) (f b)) then Inl ValueError else search f a b)"

section \<open>Radiography\<close>

text \<open>\<open>fcompute_transmission\<close>: dark-corrected ratio, normalised by \<open>clear_ratio\<close> when it
  is given (nonzero) and by \<open>sorted(transmission)[-2 if len(transmission)>1 else -1]\<close>
  otherwise.\<close>

definition fcompute_transmission ::
  "ndarray \<Rightarrow> ndarray \<Rightarrow> fval \<Rightarrow> fval \<Rightarrow> fval \<Rightarrow> error + ndarray" where
  "fcompute_transmission PIN reference clear_ratio PIN_dark ref_dark =
     (case nd_binop fdiv (nd_map (\<lambda>x. fsub x PIN_dark) PIN)
                         (nd_map (\<lambda>x. fsub x ref_dark) reference) of
        Inl e \<Rightarrow> Inl e
      | Inr transmission \<Rightarrow>
          if truthy clear_ratio then Inr (nd_map (\<lambda>x. fdiv x clear_ratio) transmission)
          else
            (case py_sorted transmission of
               Inl e \<Rightarrow> Inl e
             | Inr srt \<Rightarrow>
                 (case nd_len transmission of
                    Inl e \<Rightarrow> Inl e
                  | Inr n \<Rightarrow>
                      (case py_index_from_end srt (if n > 1 then 2 else 1) of
                         Inl e \<Rightarrow> Inl e
                       | Inr d \<Rightarrow> nd_binop fdiv transmission d))))"

text \<open>
  The specification's words for the divisor, "the second-largest value" of the ratio,
  as a rank: \<open>d\<close> occurs in the list, at most one entry is greater than \<open>d\<close> and at least
  two entries are not smaller than \<open>d\<close>.
\<close>

definition is_second_largest :: "fval \<Rightarrow> fval list \<Rightarrow> bool" where
  "is_second_largest d xs =
     (d \<in> set xs \<and> length (filter (\<lambda>x. flt d x) xs) \<le> 1
        \<and> 2 \<le> length (filter (\<lambda>x. \<not> flt x d) xs))"

definition fcompute_extinction_lengths ::
  "ndarray \<Rightarrow> ndarray \<Rightarrow> fval \<Rightarrow> fval \<Rightarrow> fval \<Rightarrow> bool \<Rightarrow> error + ndarray" where
  "fcompute_extinction_lengths PIN reference clear_ratio PIN_dark ref_dark abs_value =
     (if abs_value then
        (case fcompute_transmission PIN reference clear_ratio PIN_dark ref_dark of
           Inl e \<Rightarrow> Inl e
         | Inr t \<Rightarrow> Inr (nd_map (\<lambda>x. fneg (flog (fabs x))) t))
      else
        (case fcompute_transmission PIN reference clear_ratio PIN_dark ref_dark of
           Inl e \<Rightarrow> Inl e
         | Inr t \<Rightarrow> Inr (nd_map (\<lambda>x. fneg (flog x)) t)))"

text \<open>\<open>fcompute_radiography_density\<close> returns Python's \<open>None\<close> for a zero absorption
  coefficient.\<close>

definition fcompute_radiography_density ::
  "ndarray \<Rightarrow> ndarray \<Rightarrow> fval \<Rightarrow> fval \<Rightarrow> fval \<Rightarrow> fval \<Rightarrow> error + ndarray option" where
  "fcompute_radiography_density PIN reference clear_ratio PIN_dark ref_dark abs_coeff =
     (if truthy abs_coeff then
        (case fcompute_extinction_lengths PIN reference clear_ratio PIN_dark ref_dark True of
           Inl e \<Rightarrow> Inl e
         | Inr ext \<Rightarrow> Inr (Some (nd_map (\<lambda>x. fdiv x abs_coeff) ext)))
      else Inr None)"

section \<open>Fluorescence\<close>

text \<open>\<open>fcorrect_incident_intensity_colocated\<close>: ones, overwritten under the mask
  \<open>ext_lengths > 1e-5\<close> by \<open>(1 - exp(-L)) / L\<close>.\<close>

definition fcorrect_incident_intensity_colocated :: "ndarray \<Rightarrow> ndarray" where
  "fcorrect_incident_intensity_colocated ext_lengths =
     (let intensity_correction = ones_like ext_lengths;
          is_sig = nd_gt ext_lengths (Fin (1 / 100000));
          sel = mask_select is_sig (data ext_lengths)
      in NDArray (shape intensity_correction)
           (mask_assign (data intensity_correction) is_sig
              (map2 fdiv (map (\<lambda>L. fsub (Fin 1) (fexp (fneg L))) sel) sel)))"

text \<open>The same three lines as they stand inside \<open>fcompute_fluorescence_fit_fast\<close>
  (lines 82 to 84 of the source).\<close>

definition fit_fast_intensity_correction :: "ndarray \<Rightarrow> ndarray" where
  "fit_fast_intensity_correction ext_lengths =
     (let intensity_correction = ones_like ext_lengths;
          is_sig = nd_gt ext_lengths (Fin (1 / 100000));
          sel = mask_select is_sig (data ext_lengths)
      in NDArray (shape intensity_correction)
           (mask_assign (data intensity_correction) is_sig
              (map2 fdiv (map (\<lambda>L. fsub (Fin 1) (fexp (fneg L))) sel) sel)))"

definition fdead_time_zero_function :: "fval \<Rightarrow> fval \<Rightarrow> fval \<Rightarrow> fval" where
  "fdead_time_zero_function actual_countrate observed_countrate time_constant =
     fsub (fmul actual_countrate (fexp (fmul (fneg time_constant) actual_countrate)))
          observed_countrate"

text \<open>
  The loop of \<open>fcorrect_deadtime\<close>. The index runs over the flattened length, but
  \<open>fast_countrate[i]\<close> indexes the array itself: on an array of more than one dimension
  the item is a sub-array, and \<open>brentq\<close> takes it only if it converts to one float.
\<close>

fun fit_loop ::
  "root_search \<Rightarrow> ndarray \<Rightarrow> fval \<Rightarrow> nat list \<Rightarrow> fval list \<Rightarrow> error + fval list" where
  "fit_loop search fast_countrate tc [] fitted = Inr fitted"
| "fit_loop search fast_countrate tc (i # is) fitted =
     (case nd_getitem fast_countrate i of
        Inl e \<Rightarrow> Inl e
      | Inr item \<Rightarrow>
          (case as_float item of
             None \<Rightarrow> Inl TypeError
           | Some obs \<Rightarrow>
               (case brentq search (\<lambda>x. fdead_time_zero_function x obs tc)
                       (fsub obs (Fin 50000)) (fadd obs (Fin 100000)) of
                  Inl e \<Rightarrow> Inl e
                | Inr r \<Rightarrow> fit_loop search fast_countrate tc is (fitted[i := r]))))"

text \<open>\<open>fitted_fast_countrate\<close> after the loop: a one-dimensional array as long as the
  flattened count rate (the value of \<open>reshape\<close> on the next line is dropped).\<close>

definition fitted_fast_countrate :: "root_search \<Rightarrow> ndarray \<Rightarrow> fval \<Rightarrow> error + ndarray" where
  "fitted_fast_countrate search fast_countrate tc =
     (let n = length (data fast_countrate) in
      case fit_loop search fast_countrate tc [0..<n] (replicate n (Fin 0)) of
        Inl e \<Rightarrow> Inl e
      | Inr fitted \<Rightarrow> Inr (NDArray [n] fitted))"

text \<open>The default of \<open>fast_filter_time_constant\<close> in \<open>fcorrect_deadtime\<close> and of
  \<open>time_const\<close> in \<open>fcompute_fluorescence_fit_fast\<close>; \<open>None\<close> is the argument left out.\<close>

definition fcorrect_deadtime_default_time_constant :: fval where
  "fcorrect_deadtime_default_time_constant = Fin (315 / 10 ^ 9)"

definition fit_fast_default_time_const :: fval where
  "fit_fast_default_time_const = Fin (313 / 10 ^ 9)"

definition fcorrect_deadtime ::
  "root_search \<Rightarrow> ndarray \<Rightarrow> ndarray \<Rightarrow> ndarray \<Rightarrow> fval \<Rightarrow> fval option \<Rightarrow> error + ndarray" where
  "fcorrect_deadtime search raw_fluorescence slow_events fast_events integration_time
       fast_filter_time_constant =
     (let tc = (case fast_filter_time_constant of
                  None \<Rightarrow> fcorrect_deadtime_default_time_constant | Some t \<Rightarrow> t);
          fast_countrate = nd_map (\<lambda>x. fdiv x integration_time) fast_events
      in case fitted_fast_countrate search fast_countrate tc of
           Inl e \<Rightarrow> Inl e
         | Inr fitted \<Rightarrow>
             (case nd_binop fdiv slow_events fitted of
                Inl e \<Rightarrow> Inl e
              | Inr q \<Rightarrow>
                  nd_binop fdiv raw_fluorescence
                    (nd_map nan_to_num (nd_map (\<lambda>x. fdiv x integration_time) q))))"

text \<open>\<open>final_fluorescence - np.min(final_fluorescence)\<close>.\<close>

definition subtract_min :: "ndarray \<Rightarrow> error + ndarray" where
  "subtract_min a =
     (case np_min a of Inl e \<Rightarrow> Inl e | Inr m \<Rightarrow> Inr (nd_map (\<lambda>x. fsub x m) a))"

definition fcompute_fluorescence_fit_fast ::
  "root_search \<Rightarrow> ndarray \<Rightarrow> ndarray \<Rightarrow> ndarray \<Rightarrow> ndarray \<Rightarrow> ndarray \<Rightarrow>
     fval \<Rightarrow> fval \<Rightarrow> bool \<Rightarrow> fval option \<Rightarrow> error + ndarray" where
  "fcompute_fluorescence_fit_fast search raw_fluorescence slow_events fast_events
       radiography reference integration_time abs_coeff baseline time_const =
     (let tc = (case time_const of None \<Rightarrow> fit_fast_default_time_const | Some t \<Rightarrow> t) in
      case fcorrect_deadtime search raw_fluorescence slow_events fast_events
             integration_time (Some tc) of
        Inl e \<Rightarrow> Inl e
      | Inr f0 \<Rightarrow>
          (case nd_ibinop fdiv f0 reference of
             Inl e \<Rightarrow> Inl e
           | Inr f1 \<Rightarrow>
               (let ext_lengths =
                      (if truthy abs_coeff then nd_map (\<lambda>x. fmul x abs_coeff) radiography
                       else nd_map (\<lambda>x. fneg (flog x)) radiography)
                in case nd_ibinop fdiv f1 (fit_fast_intensity_correction ext_lengths) of
                     Inl e \<Rightarrow> Inl e
                   | Inr f2 \<Rightarrow> if baseline then subtract_min f2 else Inr f2)))"

definition fcompute_fluorescence ::
  "ndarray \<Rightarrow> ndarray \<Rightarrow> ndarray \<Rightarrow> ndarray \<Rightarrow> ndarray \<Rightarrow> fval \<Rightarrow> bool \<Rightarrow> error + ndarray" where
  "fcompute_fluorescence raw_fluorescence slow_events fast_events radiography reference
       abs_coeff baseline =
     (case nd_binop fdiv slow_events fast_events of
        Inl e \<Rightarrow> Inl e
      | Inr q \<Rightarrow>
          (case nd_binop fdiv raw_fluorescence (nd_map nan_to_num q) of
             Inl e \<Rightarrow> Inl e
           | Inr f0 \<Rightarrow>
               (case nd_ibinop fdiv f0 reference of
                  Inl e \<Rightarrow> Inl e
                | Inr f1 \<Rightarrow>
                    (let ext_lengths =
                           (if truthy abs_coeff then nd_map (\<lambda>x. fmul x abs_coeff) radiography
                            else nd_map (\<lambda>x. fneg (flog x)) radiography)
                     in case nd_ibinop fdiv f1
                               (fcorrect_incident_intensity_colocated ext_lengths) of
                          Inl e \<Rightarrow> Inl e
                        | Inr f2 \<Rightarrow> if baseline then subtract_min f2 else Inr f2))))"

section \<open>The incident-intensity correction\<close>

lemma mask_select_map: "mask_select (map p xs) xs = filter p xs"
  by (induction xs) (auto simp: mask_select_def)

lemma map2_same: "map2 f (map h xs) xs = map (\<lambda>x. f (h x) x) xs"
  by (induction xs) auto

lemma mask_assign_map:
  "mask_assign (replicate (length xs) c) (map p xs) (map g (filter p xs)) =
     map (\<lambda>x. if p x then g x else c) xs"
  by (induction xs) auto

lemma intensity_correction_elementwise:
  "fcorrect_incident_intensity_colocated a =
     NDArray (shape a)
       (map (\<lambda>L. if flt (Fin (1 / 100000)) L
                  then fdiv (fsub (Fin 1) (fexp (fneg L))) L else Fin 1) (data a))"
  by (simp add: fcorrect_incident_intensity_colocated_def Let_def ones_like_def nd_gt_def
      mask_select_map map2_same mask_assign_map)

lemma intensity_ratio_bounds:
  fixes L :: real
  assumes "0 < L"
  shows "0 < (1 - exp (- L)) / L" and "(1 - exp (- L)) / L \<le> 1"
proof -
  have "exp (- L) < 1" using assms by simp
  then show "0 < (1 - exp (- L)) / L" using assms by simp
  have "1 + (- L) \<le> exp (- L)" by (rule exp_ge_add_one_self)
  then have "1 - exp (- L) \<le> L" by simp
  then show "(1 - exp (- L)) / L \<le> 1" using assms by (simp add: divide_le_eq)
qed

lemma intensity_element_finite:
  "(if flt (Fin (1 / 100000)) (Fin L)
    then fdiv (fsub (Fin 1) (fexp (fneg (Fin L)))) (Fin L) else Fin 1)
   = Fin (if L \<le> 1 / 100000 then 1 else (1 - exp (- L)) / L)"
  by (auto simp: fsub_def)

text \<open>
  Claim C4. On an array of real (finite) extinction lengths,
  \<open>fcorrect_incident_intensity_colocated\<close> returns an array of the same shape whose
  element is exactly 1 where \<open>L \<le> 1e-5\<close> and \<open>(1 - exp(-L)) / L\<close> where \<open>L > 1e-5\<close>;
  every element of the result lies in the interval \<open>(0, 1]\<close>.
\<close>

theorem incident_intensity_correction_real:
  "fcorrect_incident_intensity_colocated (NDArray s (map Fin rs)) =
     NDArray s (map (\<lambda>L. Fin (if L \<le> 1 / 100000 then 1 else (1 - exp (- L)) / L)) rs)
   \<and> (\<forall>x \<in> set (data (fcorrect_incident_intensity_colocated (NDArray s (map Fin rs)))).
         \<exists>r. x = Fin r \<and> 0 < r \<and> r \<le> 1)"
proof -
  have eq: "fcorrect_incident_intensity_colocated (NDArray s (map Fin rs)) =
     NDArray s (map (\<lambda>L. Fin (if L \<le> 1 / 100000 then 1 else (1 - exp (- L)) / L)) rs)"
    unfolding intensity_correction_elementwise
    by (simp only: ndarray.sel list.map_comp o_def intensity_element_finite)
  have rng: "0 < (if L \<le> 1 / 100000 then 1 else (1 - exp (- L)) / L)
      \<and> (if L \<le> 1 / 100000 then 1 else (1 - exp (- L)) / L) \<le> 1" for L :: real
    using intensity_ratio_bounds[of L] by auto
  show ?thesis unfolding eq using rng by auto
qed

theorem incident_intensity_correction_real_witness:
  "fcorrect_incident_intensity_colocated (NDArray [2] [Fin 0, Fin 1]) =
     NDArray [2] [Fin 1, Fin (1 - exp (- 1))]
   \<and> Fin 1 \<in> set (data (fcorrect_incident_intensity_colocated (NDArray [2] [Fin 0, Fin 1])))
   \<and> (\<exists>r. Fin 1 = Fin r \<and> 0 < r \<and> r \<le> 1)"
  using incident_intensity_correction_real[of "[2]" "[0, 1]"] by simp

text \<open>
  Claim C8. The self-absorption correction written out inside
  \<open>fcompute_fluorescence_fit_fast\<close> and the helper
  \<open>fcorrect_incident_intensity_colocated\<close> give the same array on every array of
  extinction lengths.
\<close>

theorem fit_fast_inline_correction_is_helper:
  "fit_fast_intensity_correction ext_lengths = fcorrect_incident_intensity_colocated ext_lengths"
  by (simp add: fit_fast_intensity_correction_def fcorrect_incident_intensity_colocated_def)

section \<open>Arrays of one shape\<close>

lemma bc_shape_same: "bc_shape s s = Some s"
  by (induction s) auto

lemma concat_chunks: "concat (chunks k m d) = take (m * k) d"
proof (induction m)
  case 0
  then show ?case by (simp add: chunks_def)
next
  case (Suc m)
  have "concat (chunks k (Suc m) d) = concat (chunks k m d) @ take k (drop (m * k) d)"
    by (simp add: chunks_def)
  also have "\<dots> = take (m * k + k) d"
    by (simp add: Suc take_add)
  finally show ?case by (simp add: add.commute)
qed

lemma length_chunk:
  assumes "length d = m * k" "c \<in> set (chunks k m d)"
  shows "length c = k"
proof -
  from assms(2) obtain i where i: "i < m" and c: "c = take k (drop (i * k) d)"
    by (auto simp: chunks_def)
  from i have "Suc i \<le> m" by simp
  then have "Suc i * k \<le> m * k" by (rule mult_le_mono1)
  then have "k \<le> m * k - i * k" by simp
  then show ?thesis using assms(1) c by simp
qed

lemma bc_data_same: "length d = prod_list s \<Longrightarrow> bc_data s s d = d"
proof (induction s arbitrary: d)
  case Nil
  then show ?case by simp
next
  case (Cons m ms)
  have len: "length d = m * prod_list ms" using Cons.prems by simp
  have "map (bc_data ms ms) (chunks (prod_list ms) m d) = chunks (prod_list ms) m d"
    using Cons.IH length_chunk[OF len] by (simp add: map_idI)
  then show ?case using len by (simp add: concat_chunks)
qed

lemma broadcast_to_same: "wf_nd a \<Longrightarrow> broadcast_to (shape a) a = data a"
  by (simp add: broadcast_to_def wf_nd_def bc_data_same)

lemma nd_binop_same_shape:
  assumes "shape a = shape b" "wf_nd a" "wf_nd b"
  shows "nd_binop f a b = Inr (NDArray (shape a) (map2 f (data a) (data b)))"
  using assms broadcast_to_same[of a] broadcast_to_same[of b]
  by (simp add: nd_binop_def bc_shape_same)

lemma nd_ibinop_same_shape:
  assumes "shape a = shape b" "wf_nd a" "wf_nd b"
  shows "nd_ibinop f a b = Inr (NDArray (shape a) (map2 f (data a) (data b)))"
  using assms by (simp add: nd_ibinop_def nd_binop_same_shape)

lemma wf_nd_NDArray: "wf_nd (NDArray s d) = (length d = prod_list s)"
  by (simp add: wf_nd_def)

lemma wf_nd_map: "wf_nd (nd_map f a) = wf_nd a"
  by (simp add: wf_nd_def nd_map_def)

lemma shape_nd_map: "shape (nd_map f a) = shape a"
  by (simp add: nd_map_def)

lemma data_nd_map: "data (nd_map f a) = map f (data a)"
  by (simp add: nd_map_def)

lemma fdiv_one: "fdiv x (Fin 1) = x"
  by (cases x) auto

lemma map2_replicate_right:
  "length xs = n \<Longrightarrow> map2 f xs (replicate n v) = map (\<lambda>x. f x v) xs"
  by (induction xs arbitrary: n) auto

lemma map2_map_both: "map2 f (map g xs) (map h xs) = map (\<lambda>x. f (g x) (h x)) xs"
  by (induction xs) auto

lemma transmission_clear_ratio:
  assumes "shape PIN = shape reference" "wf_nd PIN" "wf_nd reference" "clear_ratio \<noteq> Fin 0"
  shows "fcompute_transmission PIN reference clear_ratio PIN_dark ref_dark =
     Inr (NDArray (shape PIN)
       (map2 (\<lambda>p r. fdiv (fdiv (fsub p PIN_dark) (fsub r ref_dark)) clear_ratio)
          (data PIN) (data reference)))"
proof -
  have "nd_binop fdiv (nd_map (\<lambda>x. fsub x PIN_dark) PIN) (nd_map (\<lambda>x. fsub x ref_dark) reference)
      = Inr (NDArray (shape PIN) (map2 fdiv (map (\<lambda>x. fsub x PIN_dark) (data PIN))
            (map (\<lambda>x. fsub x ref_dark) (data reference))))"
    using assms by (simp add: nd_binop_same_shape shape_nd_map wf_nd_map data_nd_map)
  then show ?thesis using assms(4)
    by (simp add: fcompute_transmission_def truthy_def nd_map_def zip_map_map map_zip_map2 split_def
        del: map_map)
      (simp add: zip_map1 zip_map2 split_def)
qed

section \<open>Radiography density\<close>

text \<open>
  Claim C5. With \<open>abs_coeff = 0\<close>, \<open>fcompute_radiography_density\<close> returns \<open>None\<close> on
  every input: it does not raise and it returns no array, so no NaN. With any other
  \<open>abs_coeff\<close> it returns the extinction lengths (computed with \<open>abs_value = True\<close>)
  divided by \<open>abs_coeff\<close>, or raises what their computation raises.
\<close>
theorem radiography_density_zero_coefficient:
  "fcompute_radiography_density PIN reference clear_ratio PIN_dark ref_dark (Fin 0) = Inr None
   \<and> (abs_coeff \<noteq> Fin 0 \<longrightarrow>
        fcompute_radiography_density PIN reference clear_ratio PIN_dark ref_dark abs_coeff =
          (case fcompute_extinction_lengths PIN reference clear_ratio PIN_dark ref_dark True of
             Inl e \<Rightarrow> Inl e
           | Inr ext \<Rightarrow> Inr (Some (nd_map (\<lambda>x. fdiv x abs_coeff) ext))))"
  by (simp add: fcompute_radiography_density_def truthy_def)

theorem radiography_density_zero_coefficient_witness:
  "Fin 2 \<noteq> Fin 0 \<and>
   fcompute_radiography_density (NDArray [1] [Fin 1]) (NDArray [1] [Fin 1]) (Fin 1) (Fin 0) (Fin 0) (Fin 2)
     = Inr (Some (NDArray [1] [Fin 0]))"
  using radiography_density_zero_coefficient[of "NDArray [1] [Fin 1]" "NDArray [1] [Fin 1]"
      "Fin 1" "Fin 0" "Fin 0" "Fin 2"]
  by (simp add: fcompute_extinction_lengths_def transmission_clear_ratio wf_nd_def nd_map_def fsub_def)

section \<open>Default time constants\<close>

text \<open>
  Claim C9. The default \<open>time_const\<close> of \<open>fcompute_fluorescence_fit_fast\<close> is 3.13e-7,
  the default of \<open>fcorrect_deadtime\<close> is 3.15e-7, and they differ; a call of
  \<open>fcompute_fluorescence_fit_fast\<close> without \<open>time_const\<close> runs the dead-time correction
  with 3.13e-7.
\<close>
theorem fit_fast_default_time_constant:
  "fit_fast_default_time_const = Fin (313 / 10 ^ 9)
   \<and> fcorrect_deadtime_default_time_constant = Fin (315 / 10 ^ 9)
   \<and> fit_fast_default_time_const \<noteq> fcorrect_deadtime_default_time_constant
   \<and> fcorrect_deadtime search raw slow fast it None =
       fcorrect_deadtime search raw slow fast it (Some (Fin (315 / 10 ^ 9)))
   \<and> fcompute_fluorescence_fit_fast search raw slow fast rad reference it abs_coeff baseline None =
       fcompute_fluorescence_fit_fast search raw slow fast rad reference it abs_coeff baseline
         (Some (Fin (313 / 10 ^ 9)))
   \<and> fcompute_fluorescence_fit_fast search raw slow fast rad reference it abs_coeff baseline None =
       (case fcorrect_deadtime search raw slow fast it (Some (Fin (313 / 10 ^ 9))) of
          Inl e \<Rightarrow> Inl e
        | Inr f0 \<Rightarrow>
            (case nd_ibinop fdiv f0 reference of
               Inl e \<Rightarrow> Inl e
             | Inr f1 \<Rightarrow>
                 (case nd_ibinop fdiv f1
                         (fit_fast_intensity_correction
                            (if truthy abs_coeff then nd_map (\<lambda>x. fmul x abs_coeff) rad
                             else nd_map (\<lambda>x. fneg (flog x)) rad)) of
                    Inl e \<Rightarrow> Inl e
                  | Inr f2 \<Rightarrow> if baseline then subtract_min f2 else Inr f2)))"
  unfolding fit_fast_default_time_const_def fcorrect_deadtime_default_time_constant_def
    fcompute_fluorescence_fit_fast_def fcorrect_deadtime_def Let_def
  by simp

section \<open>Fluorescence on arrays of one shape\<close>

lemma fluorescence_same_shape:
  assumes "shape raw = sh" "shape slow = sh" "shape fast = sh" "shape rad = sh"
    "shape reference = sh"
    and "wf_nd raw" "wf_nd slow" "wf_nd fast" "wf_nd rad" "wf_nd reference"
  shows "fcompute_fluorescence raw slow fast rad reference abs_coeff baseline =
     (let f2 = NDArray sh
        (map2 fdiv
          (map2 fdiv
            (map2 fdiv (data raw) (map nan_to_num (map2 fdiv (data slow) (data fast))))
            (data reference))
          (map (\<lambda>L. if flt (Fin (1 / 100000)) L
                      then fdiv (fsub (Fin 1) (fexp (fneg L))) L else Fin 1)
             (map (\<lambda>x. if truthy abs_coeff then fmul x abs_coeff else fneg (flog x))
                (data rad))))
      in if baseline then subtract_min f2 else Inr f2)"
proof -
  have len: "length (data raw) = prod_list sh" "length (data slow) = prod_list sh"
    "length (data fast) = prod_list sh" "length (data rad) = prod_list sh"
    "length (data reference) = prod_list sh"
    using assms by (simp_all add: wf_nd_def)
  have q: "nd_binop fdiv slow fast = Inr (NDArray sh (map2 fdiv (data slow) (data fast)))"
    using assms by (simp add: nd_binop_same_shape)
  have f0: "nd_binop fdiv raw (nd_map nan_to_num (NDArray sh (map2 fdiv (data slow) (data fast))))
      = Inr (NDArray sh (map2 fdiv (data raw) (map nan_to_num (map2 fdiv (data slow) (data fast)))))"
    using assms len by (simp add: nd_binop_same_shape nd_map_def wf_nd_def)
  have f1: "nd_ibinop fdiv
       (NDArray sh (map2 fdiv (data raw) (map nan_to_num (map2 fdiv (data slow) (data fast)))))
       reference
     = Inr (NDArray sh (map2 fdiv
          (map2 fdiv (data raw) (map nan_to_num (map2 fdiv (data slow) (data fast))))
          (data reference)))"
    using assms len by (simp add: nd_ibinop_same_shape wf_nd_def)
  have f2: "nd_ibinop fdiv
       (NDArray sh (map2 fdiv
          (map2 fdiv (data raw) (map nan_to_num (map2 fdiv (data slow) (data fast))))
          (data reference)))
       (fcorrect_incident_intensity_colocated (nd_map g rad))
     = Inr (NDArray sh (map2 fdiv
          (map2 fdiv
            (map2 fdiv (data raw) (map nan_to_num (map2 fdiv (data slow) (data fast))))
            (data reference))
          (map (\<lambda>L. if flt (Fin (1 / 100000)) L
                      then fdiv (fsub (Fin 1) (fexp (fneg L))) L else Fin 1)
             (map g (data rad)))))" for g
    using assms len
    by (simp add: nd_ibinop_same_shape wf_nd_def intensity_correction_elementwise nd_map_def)
  show ?thesis
    unfolding fcompute_fluorescence_def Let_def q sum.case f0 f1
    by (cases "truthy abs_coeff") (simp_all add: f2 del: map_map)
qed

lemma fdiv_self_pos: "0 < x \<Longrightarrow> fdiv (Fin x) (Fin x) = Fin 1"
  by simp

lemma map2_fdiv_self:
  "\<forall>x\<in>set ev. 0 < x \<Longrightarrow> map2 fdiv (map Fin ev) (map Fin ev) = replicate (length ev) (Fin 1)"
  by (induction ev) auto

lemma map2_fdiv_ones: "length xs = n \<Longrightarrow> map2 fdiv xs (replicate n (Fin 1)) = xs"
  by (simp add: map2_replicate_right fdiv_one)

text \<open>
  Claim C7. With \<open>fast_events\<close> and \<open>slow_events\<close> the same array of positive numbers,
  \<open>abs_coeff = 0\<close> and a radiography signal of ones, \<open>fcompute_fluorescence\<close> (without
  baseline) returns exactly \<open>raw_fluorescence / reference\<close>, element by element: the
  live time is 1 and the intensity correction is 1.
\<close>
theorem fluorescence_unit_corrections:
  assumes "shape raw = sh" "wf_nd raw" "shape reference = sh" "wf_nd reference"
    and "length ev = prod_list sh" "\<forall>x\<in>set ev. 0 < x"
  shows "fcompute_fluorescence raw (NDArray sh (map Fin ev)) (NDArray sh (map Fin ev))
           (NDArray sh (replicate (prod_list sh) (Fin 1))) reference (Fin 0) False
         = Inr (NDArray sh (map2 fdiv (data raw) (data reference)))
       \<and> nd_binop fdiv raw reference = Inr (NDArray sh (map2 fdiv (data raw) (data reference)))"
proof -
  have len: "length (data raw) = prod_list sh" "length (data reference) = prod_list sh"
    using assms by (simp_all add: wf_nd_def)
  have live: "map nan_to_num (map2 fdiv (map Fin ev) (map Fin ev)) = replicate (prod_list sh) (Fin 1)"
    using assms(5,6) by (simp add: map2_fdiv_self)
  have lenq: "length (map2 fdiv (data raw) (data reference)) = prod_list sh"
    using len by simp
  have "fcompute_fluorescence raw (NDArray sh (map Fin ev)) (NDArray sh (map Fin ev))
           (NDArray sh (replicate (prod_list sh) (Fin 1))) reference (Fin 0) False
         = Inr (NDArray sh (map2 fdiv (data raw) (data reference)))"
    using assms(1-5)
    by (simp add: fluorescence_same_shape[where sh = sh] wf_nd_def live truthy_def
        map2_fdiv_ones[OF len(1)] map2_fdiv_ones[OF lenq] del: map_map)
  moreover have "nd_binop fdiv raw reference = Inr (NDArray sh (map2 fdiv (data raw) (data reference)))"
    using assms(1-4) by (simp add: nd_binop_same_shape)
  ultimately show ?thesis by simp
qed

theorem fluorescence_unit_corrections_witness:
  "fcompute_fluorescence (NDArray [2] [Fin 6, Fin 8]) (NDArray [2] [Fin 3, Fin 5])
      (NDArray [2] [Fin 3, Fin 5]) (NDArray [2] [Fin 1, Fin 1]) (NDArray [2] [Fin 2, Fin 4])
      (Fin 0) False
    = Inr (NDArray [2] [Fin 3, Fin 2])"
  using fluorescence_unit_corrections[of "NDArray [2] [Fin 6, Fin 8]" "[2]"
      "NDArray [2] [Fin 2, Fin 4]" "[3, 5]"]
  by (simp add: wf_nd_def numeral_2_eq_2)

section \<open>Zero event counts\<close>

lemma nth_map2:
  "i < length xs \<Longrightarrow> i < length ys \<Longrightarrow> map2 f xs ys ! i = f (xs ! i) (ys ! i)"
  by simp

lemma correction_element_range:
  "\<exists>c. (if flt (Fin (1 / 100000)) L then fdiv (fsub (Fin 1) (fexp (fneg L))) L else Fin 1) = Fin c
       \<and> 0 \<le> c"
proof (cases L)
  case (Fin x)
  show ?thesis
  proof (cases "1 / 100000 < x")
    case True
    then have "0 < x" by simp
    then have "0 < (1 - exp (- x)) / x" by (rule intensity_ratio_bounds)
    then show ?thesis using Fin True by (simp add: fsub_def)
  next
    case False
    then show ?thesis using Fin by simp
  qed
qed (simp_all add: fsub_def)

lemma fdiv_NaN_left: "fdiv NaN y = NaN"
  by simp

lemma fdiv_inf_nonneg:
  "0 \<le> c \<Longrightarrow> fdiv PInf (Fin c) = PInf" "0 \<le> c \<Longrightarrow> fdiv NInf (Fin c) = NInf"
  by simp_all

text \<open>
  Claim C10. In \<open>fcompute_fluorescence\<close>, at an element where \<open>slow_events\<close> and
  \<open>fast_events\<close> are both 0 the ratio \<open>slow_events / fast_events\<close> is NaN and
  \<open>nan_to_num\<close> makes the live time 0. The returned element (baseline off, arrays of one
  shape) is then the raw value divided by zero: NaN when \<open>raw_fluorescence\<close> is 0, and an
  infinity when it is positive and the reference element is finite (\<open>+inf\<close> unless the
  reference is negative), never the raw value itself.
\<close>
theorem fluorescence_zero_events:
  assumes "shape raw = sh" "shape slow = sh" "shape fast = sh" "shape rad = sh"
    "shape reference = sh"
    and "wf_nd raw" "wf_nd slow" "wf_nd fast" "wf_nd rad" "wf_nd reference"
    and "i < prod_list sh" "data slow ! i = Fin 0" "data fast ! i = Fin 0"
  shows "\<exists>r. fcompute_fluorescence raw slow fast rad reference abs_coeff False = Inr r
           \<and> shape r = sh
           \<and> fdiv (data slow ! i) (data fast ! i) = NaN
           \<and> nan_to_num (fdiv (data slow ! i) (data fast ! i)) = Fin 0
           \<and> (data raw ! i = Fin 0 \<longrightarrow> data r ! i = NaN)
           \<and> (\<forall>x y. data raw ! i = Fin x \<and> 0 < x \<and> data reference ! i = Fin y \<longrightarrow>
                  data r ! i = (if y < 0 then NInf else PInf))"
proof -
  let ?corr = "\<lambda>L. if flt (Fin (1 / 100000)) L
                      then fdiv (fsub (Fin 1) (fexp (fneg L))) L else Fin 1"
  let ?ext = "\<lambda>x. if truthy abs_coeff then fmul x abs_coeff else fneg (flog x)"
  let ?d = "map2 fdiv
          (map2 fdiv
            (map2 fdiv (data raw) (map nan_to_num (map2 fdiv (data slow) (data fast))))
            (data reference))
          (map ?corr (map ?ext (data rad)))"
  have len: "length (data raw) = prod_list sh" "length (data slow) = prod_list sh"
    "length (data fast) = prod_list sh" "length (data rad) = prod_list sh"
    "length (data reference) = prod_list sh"
    using assms by (simp_all add: wf_nd_def)
  have res: "fcompute_fluorescence raw slow fast rad reference abs_coeff False = Inr (NDArray sh ?d)"
    using fluorescence_same_shape[OF assms(1-10), of abs_coeff False] by (simp add: Let_def)
  obtain c where c: "?corr (?ext (data rad ! i)) = Fin c" "0 \<le> c"
    using correction_element_range[of "?ext (data rad ! i)"] by blast
  have elem: "?d ! i = fdiv (fdiv (fdiv (data raw ! i) (Fin 0)) (data reference ! i)) (Fin c)"
    using len assms(11,12,13) c(1) by (simp add: inf_of_sign_def)
  have zero: "data raw ! i = Fin 0 \<Longrightarrow> ?d ! i = NaN"
    unfolding elem by (simp add: inf_of_sign_def)
  have pos: "data raw ! i = Fin x \<Longrightarrow> 0 < x \<Longrightarrow> data reference ! i = Fin y \<Longrightarrow>
      ?d ! i = (if y < 0 then NInf else PInf)" for x y
    unfolding elem using c(2) by (simp add: inf_of_sign_def)
  show ?thesis
    using res zero pos assms(12,13) by (auto simp: inf_of_sign_def)
qed

theorem fluorescence_zero_events_witness:
  "fcompute_fluorescence (NDArray [2] [Fin 0, Fin 5]) (NDArray [2] [Fin 0, Fin 0])
      (NDArray [2] [Fin 0, Fin 0]) (NDArray [2] [Fin 1, Fin 1]) (NDArray [2] [Fin 1, Fin 1])
      (Fin 0) False
    = Inr (NDArray [2] [NaN, PInf])"
proof -
  have "\<exists>r. fcompute_fluorescence (NDArray [2] [Fin 0, Fin 5]) (NDArray [2] [Fin 0, Fin 0])
      (NDArray [2] [Fin 0, Fin 0]) (NDArray [2] [Fin 1, Fin 1]) (NDArray [2] [Fin 1, Fin 1])
      (Fin 0) False = Inr r \<and> shape r = [2]
      \<and> data r ! 1 = PInf"
    using fluorescence_zero_events[of "NDArray [2] [Fin 0, Fin 5]" "[2]"
        "NDArray [2] [Fin 0, Fin 0]" "NDArray [2] [Fin 0, Fin 0]" "NDArray [2] [Fin 1, Fin 1]"
        "NDArray [2] [Fin 1, Fin 1]" 1 "Fin 0"]
    by (simp add: wf_nd_def inf_of_sign_def)
  then show ?thesis
    by (simp add: fluorescence_same_shape[where sh = "[2]"] wf_nd_def truthy_def
        inf_of_sign_def fsub_def)
qed

section \<open>Baseline subtraction\<close>

lemma foldl_fmin2_Fin: "foldl fmin2 (Fin x) (map Fin xs) = Fin (fold min xs x)"
  by (induction xs arbitrary: x) (auto simp: min_def)

lemma np_min_finite:
  assumes "rs \<noteq> []"
  shows "np_min (NDArray sh (map Fin rs)) = Inr (Fin (Min (set rs)))"
proof -
  from assms obtain x xs where rs: "rs = x # xs" by (cases rs) auto
  show ?thesis
    unfolding rs using Min.set_eq_fold[of x xs]
    by (simp add: np_min_def foldl_fmin2_Fin)
qed

lemma Min_shift:
  fixes rs :: "real list"
  assumes "rs \<noteq> []"
  shows "Min (set (map (\<lambda>x. x - m) rs)) = Min (set rs) - m"
proof -
  have "mono (\<lambda>x::real. x - m)" by (simp add: mono_def)
  then have "(\<lambda>x. x - m) (Min (set rs)) = Min ((\<lambda>x. x - m) ` set rs)"
    using assms by (intro mono_Min_commute) simp_all
  then show ?thesis by simp
qed

lemma subtract_min_finite:
  assumes "rs \<noteq> []"
  shows "subtract_min (NDArray sh (map Fin rs)) =
           Inr (NDArray sh (map (\<lambda>x. Fin (x - Min (set rs))) rs))"
    and "np_min (NDArray sh (map (\<lambda>x. Fin (x - Min (set rs))) rs)) = Inr (Fin 0)"
proof -
  show "subtract_min (NDArray sh (map Fin rs)) =
           Inr (NDArray sh (map (\<lambda>x. Fin (x - Min (set rs))) rs))"
    using assms by (simp add: subtract_min_def np_min_finite nd_map_def fsub_def)
  have "map (\<lambda>x. Fin (x - Min (set rs))) rs = map Fin (map (\<lambda>x. x - Min (set rs)) rs)"
    by simp
  moreover have "map (\<lambda>x. x - Min (set rs)) rs \<noteq> []" using assms by simp
  ultimately have "np_min (NDArray sh (map (\<lambda>x. Fin (x - Min (set rs))) rs))
      = Inr (Fin (Min (set (map (\<lambda>x. x - Min (set rs)) rs))))"
    using np_min_finite by metis
  then show "np_min (NDArray sh (map (\<lambda>x. Fin (x - Min (set rs))) rs)) = Inr (Fin 0)"
    using Min_shift[OF assms] by simp
qed

lemma fluorescence_baseline:
  "fcompute_fluorescence raw slow fast rad reference abs_coeff True =
     (case fcompute_fluorescence raw slow fast rad reference abs_coeff False of
        Inl e \<Rightarrow> Inl e | Inr f2 \<Rightarrow> subtract_min f2)"
  unfolding fcompute_fluorescence_def Let_def
  by (simp split: sum.splits)

lemma fit_fast_baseline:
  "fcompute_fluorescence_fit_fast search raw slow fast rad reference it abs_coeff True tc =
     (case fcompute_fluorescence_fit_fast search raw slow fast rad reference it abs_coeff False tc of
        Inl e \<Rightarrow> Inl e | Inr f2 \<Rightarrow> subtract_min f2)"
  unfolding fcompute_fluorescence_fit_fast_def Let_def
  by (simp split: sum.splits)

text \<open>
  Claim C6, as amended. Whenever \<open>fcompute_fluorescence\<close> or
  \<open>fcompute_fluorescence_fit_fast\<close> without baseline returns a non-empty array of finite
  values, the same call with \<open>baseline\<close> true returns that array with its global minimum
  subtracted from every element, and the minimum of the returned array is exactly 0.
\<close>

theorem baseline_minimum_zero:
  "(fcompute_fluorescence raw slow fast rad reference abs_coeff False = Inr (NDArray sh (map Fin rs))
      \<and> rs \<noteq> [] \<longrightarrow>
    fcompute_fluorescence raw slow fast rad reference abs_coeff True =
      Inr (NDArray sh (map (\<lambda>x. Fin (x - Min (set rs))) rs))
    \<and> np_min (NDArray sh (map (\<lambda>x. Fin (x - Min (set rs))) rs)) = Inr (Fin 0))
   \<and> (fcompute_fluorescence_fit_fast search raw' slow' fast' rad' reference' it abs_coeff' False tc
        = Inr (NDArray sh' (map Fin rs'))
      \<and> rs' \<noteq> [] \<longrightarrow>
    fcompute_fluorescence_fit_fast search raw' slow' fast' rad' reference' it abs_coeff' True tc =
      Inr (NDArray sh' (map (\<lambda>x. Fin (x - Min (set rs'))) rs'))
    \<and> np_min (NDArray sh' (map (\<lambda>x. Fin (x - Min (set rs'))) rs')) = Inr (Fin 0))"
  by (simp add: fluorescence_baseline fit_fast_baseline subtract_min_finite)

lemma fit_fast_correction_elementwise:
  "fit_fast_intensity_correction a =
     NDArray (shape a)
       (map (\<lambda>L. if flt (Fin (1 / 100000)) L
                  then fdiv (fsub (Fin 1) (fexp (fneg L))) L else Fin 1) (data a))"
  by (simp add: fit_fast_intensity_correction_def Let_def ones_like_def nd_gt_def
      mask_select_map map2_same mask_assign_map)

lemma fit_fast_example:
  "fcompute_fluorescence_fit_fast (\<lambda>f a b. Inr (Fin 1)) (NDArray [1] [Fin 6])
      (NDArray [1] [Fin 1]) (NDArray [1] [Fin 1]) (NDArray [1] [Fin 1]) (NDArray [1] [Fin 2])
      (Fin 1) (Fin 0) False (Some (Fin 0))
    = Inr (NDArray [1] [Fin 3])"
  by (simp add: fcompute_fluorescence_fit_fast_def fcorrect_deadtime_def
      fitted_fast_countrate_def Let_def nd_map_def nd_getitem_def nd_item_def as_float_def
      brentq_def fdead_time_zero_function_def fsub_def nd_binop_same_shape
      nd_ibinop_same_shape wf_nd_def truthy_def fit_fast_correction_elementwise)

theorem baseline_minimum_zero_witness:
  "fcompute_fluorescence (NDArray [2] [Fin 6, Fin 8]) (NDArray [2] [Fin 3, Fin 5])
      (NDArray [2] [Fin 3, Fin 5]) (NDArray [2] [Fin 1, Fin 1]) (NDArray [2] [Fin 2, Fin 4])
      (Fin 0) False = Inr (NDArray [2] (map Fin [3, 2]))
   \<and> [3, 2 :: real] \<noteq> []
   \<and> fcompute_fluorescence (NDArray [2] [Fin 6, Fin 8]) (NDArray [2] [Fin 3, Fin 5])
      (NDArray [2] [Fin 3, Fin 5]) (NDArray [2] [Fin 1, Fin 1]) (NDArray [2] [Fin 2, Fin 4])
      (Fin 0) True = Inr (NDArray [2] [Fin 1, Fin 0])
   \<and> np_min (NDArray [2] [Fin 1, Fin 0]) = Inr (Fin 0)
   \<and> fcompute_fluorescence_fit_fast (\<lambda>f a b. Inr (Fin 1)) (NDArray [1] [Fin 6])
      (NDArray [1] [Fin 1]) (NDArray [1] [Fin 1]) (NDArray [1] [Fin 1]) (NDArray [1] [Fin 2])
      (Fin 1) (Fin 0) False (Some (Fin 0)) = Inr (NDArray [1] (map Fin [3]))
   \<and> [3 :: real] \<noteq> []
   \<and> fcompute_fluorescence_fit_fast (\<lambda>f a b. Inr (Fin 1)) (NDArray [1] [Fin 6])
      (NDArray [1] [Fin 1]) (NDArray [1] [Fin 1]) (NDArray [1] [Fin 1]) (NDArray [1] [Fin 2])
      (Fin 1) (Fin 0) True (Some (Fin 0)) = Inr (NDArray [1] [Fin 0])
   \<and> np_min (NDArray [1] [Fin 0]) = Inr (Fin 0)"
proof -
  have h1: "fcompute_fluorescence (NDArray [2] [Fin 6, Fin 8]) (NDArray [2] [Fin 3, Fin 5])
      (NDArray [2] [Fin 3, Fin 5]) (NDArray [2] [Fin 1, Fin 1]) (NDArray [2] [Fin 2, Fin 4])
      (Fin 0) False = Inr (NDArray [2] (map Fin [3, 2]))"
    by (simp add: fluorescence_same_shape[where sh = "[2]"] wf_nd_def truthy_def fsub_def)
  have h2: "fcompute_fluorescence_fit_fast (\<lambda>f a b. Inr (Fin 1)) (NDArray [1] [Fin 6])
      (NDArray [1] [Fin 1]) (NDArray [1] [Fin 1]) (NDArray [1] [Fin 1]) (NDArray [1] [Fin 2])
      (Fin 1) (Fin 0) False (Some (Fin 0)) = Inr (NDArray [1] (map Fin [3]))"
    using fit_fast_example by simp
  show ?thesis
    using h1 h2
      baseline_minimum_zero[of "NDArray [2] [Fin 6, Fin 8]" "NDArray [2] [Fin 3, Fin 5]"
        "NDArray [2] [Fin 3, Fin 5]" "NDArray [2] [Fin 1, Fin 1]" "NDArray [2] [Fin 2, Fin 4]"
        "Fin 0" "[2]" "[3, 2]" "\<lambda>f a b. Inr (Fin 1)" "NDArray [1] [Fin 6]"
        "NDArray [1] [Fin 1]" "NDArray [1] [Fin 1]" "NDArray [1] [Fin 1]" "NDArray [1] [Fin 2]"
        "Fin 1" "Fin 0" "Some (Fin 0)" "[1]" "[3]"]
    by simp
qed

text \<open>
  Without the restriction to finite values the minimum need not be 0: a zero raw count
  over a zero reference is NaN, \<open>np.min\<close> of the array is NaN, and so is every element
  after the subtraction.
\<close>

theorem baseline_minimum_nan_counterexample:
  "fcompute_fluorescence (NDArray [1] [Fin 0]) (NDArray [1] [Fin 1]) (NDArray [1] [Fin 1])
      (NDArray [1] [Fin 1]) (NDArray [1] [Fin 0]) (Fin 0) True
     = Inr (NDArray [1] [NaN])
   \<and> np_min (NDArray [1] [NaN]) = Inr NaN
   \<and> np_min (NDArray [1] [NaN]) \<noteq> Inr (Fin 0)"
  by (simp add: fluorescence_same_shape[where sh = "[1]"] wf_nd_def truthy_def
        inf_of_sign_def fsub_def subtract_min_def np_min_def nd_map_def)

section \<open>Dead-time correction\<close>

lemma dead_time_curve_strict_mono:
  fixes tc x y :: real
  assumes "0 < tc" "x < y" "y \<le> 1 / tc"
  shows "x * exp (- tc * x) < y * exp (- tc * y)"
proof -
  have "(\<lambda>u. u * exp (- tc * u)) x < (\<lambda>u. u * exp (- tc * u)) y"
  proof (rule DERIV_pos_imp_increasing_open[OF assms(2)])
    fix u assume u: "x < u" "u < y"
    have d: "((\<lambda>u. u * exp (- tc * u)) has_real_derivative
               (1 - tc * u) * exp (- tc * u)) (at u)"
      by (auto intro!: derivative_eq_intros simp: algebra_simps)
    have "u < 1 / tc" using u(2) assms(3) by simp
    then have "tc * u < 1" using assms(1) by (simp add: pos_less_divide_eq mult.commute)
    then have "0 < (1 - tc * u) * exp (- tc * u)" by simp
    with d show "\<exists>d. ((\<lambda>u. u * exp (- tc * u)) has_real_derivative d) (at u) \<and> 0 < d"
      by blast
  next
    show "continuous_on {x..y} (\<lambda>u. u * exp (- tc * u))"
      by (intro continuous_intros)
  qed
  then show ?thesis by simp
qed

lemma residual_Fin:
  "fdead_time_zero_function (Fin x) (Fin obs) (Fin tc) = Fin (x * exp (- tc * x) - obs)"
  by (simp add: fdead_time_zero_function_def fsub_def)

lemma fitted_single:
  assumes "T \<noteq> 0"
  shows "fitted_fast_countrate search (nd_map (\<lambda>x. fdiv x (Fin T)) (NDArray [1] [Fin (obs * T)]))
           (Fin tc) =
         (case brentq search (\<lambda>x. fdead_time_zero_function x (Fin obs) (Fin tc))
                 (Fin (obs - 50000)) (Fin (obs + 100000)) of
            Inl e \<Rightarrow> Inl e
          | Inr r \<Rightarrow> Inr (NDArray [1] [r]))"
  using assms
  by (simp add: fitted_fast_countrate_def nd_map_def nd_getitem_def nd_item_def as_float_def
      fsub_def split: sum.splits)

text \<open>
  Claim C2, as amended. Let \<open>actual_rate > 0\<close>, \<open>time_constant > 0\<close>,
  \<open>integration_time > 0\<close>, \<open>observed_rate = actual_rate * exp(-time_constant * actual_rate)\<close>
  and \<open>fast_events = observed_rate * integration_time\<close> (one element). If the bracket
  \<open>[observed_rate - 5e4, observed_rate + 1e5]\<close> reaches \<open>actual_rate\<close> and stays on the
  rising branch of the dead-time curve (\<open>observed_rate + 1e5 \<le> 1 / time_constant\<close>), then
  the residual changes sign over the bracket, so \<open>brentq\<close> accepts it, \<open>actual_rate\<close> is the
  only root of the residual in the bracket, and a search that returns a root in the
  bracket makes the fitted fast count rate equal to \<open>actual_rate\<close>. The root is exact here;
  the tolerance of the solver is not modelled.
\<close>

theorem deadtime_round_trip:
  fixes a tc T obs r :: real
  assumes "0 < a" "0 < tc" "0 < T"
    and "obs = a * exp (- tc * a)"
    and "a \<le> obs + 100000"
    and "obs + 100000 \<le> 1 / tc"
    and "search (\<lambda>x. fdead_time_zero_function x (Fin obs) (Fin tc))
           (Fin (obs - 50000)) (Fin (obs + 100000)) = Inr (Fin r)"
    and "obs - 50000 \<le> r" "r \<le> obs + 100000"
    and "fdead_time_zero_function (Fin r) (Fin obs) (Fin tc) = Fin 0"
  shows "obs - 50000 < a \<and> a \<le> obs + 100000
       \<and> fdead_time_zero_function (Fin a) (Fin obs) (Fin tc) = Fin 0
       \<and> brentq search (\<lambda>x. fdead_time_zero_function x (Fin obs) (Fin tc))
            (Fin (obs - 50000)) (Fin (obs + 100000)) = Inr (Fin r)
       \<and> r = a
       \<and> fitted_fast_countrate search
            (nd_map (\<lambda>x. fdiv x (Fin T)) (NDArray [1] [Fin (obs * T)])) (Fin tc)
          = Inr (NDArray [1] [Fin a])"
proof -
  let ?h = "\<lambda>u. u * exp (- tc * u)"
  have "exp (- tc * a) < 1" using assms(1,2) by simp
  then have "obs < a" using assms(1,4) by simp
  then have lo_lt: "obs - 50000 < a" by simp
  have a_le: "a \<le> 1 / tc" using assms(5,6) by simp
  have glo: "?h (obs - 50000) - obs < 0"
    using dead_time_curve_strict_mono[OF assms(2) lo_lt a_le] assms(4) by simp
  have ghi: "0 \<le> ?h (obs + 100000) - obs"
  proof (cases "a = obs + 100000")
    case True
    then show ?thesis using assms(4) by simp
  next
    case False
    then have "a < obs + 100000" using assms(5) by simp
    from dead_time_curve_strict_mono[OF assms(2) this assms(6)] show ?thesis
      using assms(4) by simp
  qed
  have "(?h (obs - 50000) - obs) * (?h (obs + 100000) - obs) \<le> 0"
    using glo ghi by (simp add: mult_nonpos_nonneg)
  then have accept: "brentq search (\<lambda>x. fdead_time_zero_function x (Fin obs) (Fin tc))
            (Fin (obs - 50000)) (Fin (obs + 100000)) = Inr (Fin r)"
    using assms(7) by (simp add: brentq_def residual_Fin del: mult_minus_left)
  have root_r: "?h r = obs" using assms(10) by (simp add: residual_Fin)
  have r_le: "r \<le> 1 / tc" using assms(6,9) by simp
  have "r = a"
  proof (rule ccontr)
    assume "r \<noteq> a"
    then consider "r < a" | "a < r" by linarith
    then show False
    proof cases
      case 1
      from dead_time_curve_strict_mono[OF assms(2) 1 a_le] show False
        using root_r assms(4) by simp
    next
      case 2
      from dead_time_curve_strict_mono[OF assms(2) 2 r_le] show False
        using root_r assms(4) by simp
    qed
  qed
  moreover have "fdead_time_zero_function (Fin a) (Fin obs) (Fin tc) = Fin 0"
    using assms(4) by (simp add: residual_Fin)
  moreover have "fitted_fast_countrate search
            (nd_map (\<lambda>x. fdiv x (Fin T)) (NDArray [1] [Fin (obs * T)])) (Fin tc)
          = Inr (NDArray [1] [Fin r])"
  proof -
    have "T \<noteq> 0" using assms(3) by simp
    show ?thesis unfolding fitted_single[OF \<open>T \<noteq> 0\<close>] accept by simp
  qed
  ultimately show ?thesis using lo_lt assms(5) accept by simp
qed

theorem deadtime_round_trip_witness:
  "(0::real) < 1 \<and> (0::real) < 1 / 10 ^ 6
   \<and> (1::real) \<le> 1 * exp (- (1 / 10 ^ 6) * 1) + 100000
   \<and> 1 * exp (- (1 / 10 ^ 6) * 1) + 100000 \<le> (1::real) / (1 / 10 ^ 6)
   \<and> fitted_fast_countrate (\<lambda>f a b. Inr (Fin 1))
        (nd_map (\<lambda>x. fdiv x (Fin 1)) (NDArray [1] [Fin (1 * exp (- (1 / 10 ^ 6) * 1) * 1)]))
        (Fin (1 / 10 ^ 6))
      = Inr (NDArray [1] [Fin 1])"
proof -
  have e: "exp (- (1 / 10 ^ 6 :: real)) \<le> 1" "0 \<le> exp (- (1 / 10 ^ 6 :: real))" by simp_all
  have h5: "(1::real) \<le> 1 * exp (- (1 / 10 ^ 6) * 1) + 100000" using e by simp
  have "exp (- (1 / 10 ^ 6 :: real)) \<le> 900000" using e(1) by linarith
  then have h6: "1 * exp (- (1 / 10 ^ 6) * 1) + 100000 \<le> (1::real) / (1 / 10 ^ 6)" by simp
  have "exp (- (1 / 10 ^ 6 :: real)) \<le> 50001" using e(1) by linarith
  then have h8: "1 * exp (- (1 / 10 ^ 6) * 1) - 50000 \<le> (1::real)" by simp
  have h10: "fdead_time_zero_function (Fin 1) (Fin (1 * exp (- (1 / 10 ^ 6) * 1))) (Fin (1 / 10 ^ 6))
      = Fin 0"
    by (simp add: residual_Fin)
  show ?thesis
    using deadtime_round_trip[of 1 "1 / 10 ^ 6" 1 "1 * exp (- (1 / 10 ^ 6) * 1)"
        "\<lambda>f a b. Inr (Fin 1)" 1, OF _ _ _ refl h5 h6 refl h8 h5 h10] h5 h6
    by simp
qed

text \<open>
  At \<open>actual_rate = 1e6\<close> with the default time constant 3.15e-7 the observed rate is
  below 9e5, the bracket ends below the actual rate, the residual is negative at both
  ends and \<open>brentq\<close> raises ValueError.
\<close>

lemma exp_315_bound: "exp (- (315 / 10 ^ 9) * 1000000 :: real) < 9 / 10"
proof -
  have "1 + (315 / 1000 :: real) \<le> exp (315 / 1000)" by (rule exp_ge_add_one_self)
  then have "(1315 / 1000 :: real) \<le> exp (315 / 1000)" by simp
  then have "inverse (exp (315 / 1000 :: real)) \<le> inverse (1315 / 1000)"
    by (intro le_imp_inverse_le) simp_all
  then have "exp (- (315 / 1000) :: real) \<le> 1000 / 1315" by (simp add: exp_minus)
  then show ?thesis by simp
qed

theorem deadtime_round_trip_counterexample:
  "fitted_fast_countrate (\<lambda>f a b. Inr (Fin 1000000))
      (nd_map (\<lambda>x. fdiv x (Fin 1))
         (NDArray [1] [Fin (1000000 * exp (- (315 / 10 ^ 9) * 1000000) * 1)]))
      (Fin (315 / 10 ^ 9))
     = Inl ValueError
   \<and> \<not> (1000000 \<le> 1000000 * exp (- (315 / 10 ^ 9) * 1000000) + (100000::real))"
proof -
  define tc :: real where "tc = 315 / 10 ^ 9"
  define obs :: real where "obs = 1000000 * exp (- tc * 1000000)"
  have tc: "0 < tc" "1000000 \<le> 1 / tc" by (simp_all add: tc_def)
  have "exp (- tc * 1000000) < 9 / 10" using exp_315_bound by (simp add: tc_def)
  then have obs_lt: "obs < 900000" by (simp add: obs_def)
  have obs_pos: "0 < obs" by (simp add: obs_def)
  have hi_lt: "obs + 100000 < 1000000" using obs_lt by simp
  have lo_lt: "obs - 50000 < 1000000" using obs_lt by simp
  have ghi: "(obs + 100000) * exp (- tc * (obs + 100000)) - obs < 0"
    using dead_time_curve_strict_mono[OF tc(1) hi_lt tc(2)] by (simp add: obs_def)
  have glo: "(obs - 50000) * exp (- tc * (obs - 50000)) - obs < 0"
    using dead_time_curve_strict_mono[OF tc(1) lo_lt tc(2)] by (simp add: obs_def)
  have "0 < ((obs - 50000) * exp (- tc * (obs - 50000)) - obs)
             * ((obs + 100000) * exp (- tc * (obs + 100000)) - obs)"
    using glo ghi by (rule mult_neg_neg)
  then have "brentq (\<lambda>f a b. Inr (Fin 1000000)) (\<lambda>x. fdead_time_zero_function x (Fin obs) (Fin tc))
      (Fin (obs - 50000)) (Fin (obs + 100000)) = Inl ValueError"
    by (simp add: brentq_def residual_Fin del: mult_minus_left)
  then have "fitted_fast_countrate (\<lambda>f a b. Inr (Fin 1000000))
      (nd_map (\<lambda>x. fdiv x (Fin 1)) (NDArray [1] [Fin (obs * 1)])) (Fin tc) = Inl ValueError"
    using fitted_single[of 1 "\<lambda>f a b. Inr (Fin 1000000)" obs tc] by simp
  then show ?thesis using hi_lt unfolding obs_def tc_def by simp
qed

text \<open>
  Claim C1. The claim is that \<open>fcorrect_deadtime\<close> solves element by element on arrays of
  any dimension and returns an array of the input shape. On a 2 by 2 array of fast
  events the first item \<open>fast_countrate[0]\<close> is a row of two elements, which \<open>brentq\<close>
  cannot take as a float: the call raises TypeError whatever the other arguments are.
  On a 2 by 1 array the items convert, but the fitted rates stay one-dimensional (the
  reshaped array is dropped) and the result has shape 2 by 2.
\<close>
theorem deadtime_two_dimensional_type_error:
  "fcorrect_deadtime search raw slow (NDArray [2, 2] [Fin 1, Fin 2, Fin 3, Fin 4]) (Fin 1) tc
     = Inl TypeError
   \<and> fcorrect_deadtime (\<lambda>f a b. Inr (Fin 1)) (NDArray [2, 1] [Fin 3, Fin 5])
       (NDArray [2, 1] [Fin 1, Fin 1]) (NDArray [2, 1] [Fin 1, Fin 1]) (Fin 1) (Some (Fin 0))
     = Inr (NDArray [2, 2] [Fin 3, Fin 3, Fin 5, Fin 5])"
  by (simp add: fcorrect_deadtime_def fitted_fast_countrate_def Let_def nd_map_def
      upt_conv_Cons nd_getitem_def nd_item_def as_float_def brentq_def
      fdead_time_zero_function_def fsub_def nd_binop_def broadcast_to_def chunks_def
      eval_nat_numeral)

section \<open>Transmission: automatic normalisation\<close>

lemma flt_irrefl: "\<not> flt x x"
  by (cases x) auto

lemma flt_asym: "flt x y \<Longrightarrow> \<not> flt y x"
  by (cases x; cases y) auto

lemma flt_le_trans:
  "flt x y \<Longrightarrow> \<not> flt z y \<Longrightarrow> z \<noteq> NaN \<Longrightarrow> \<not> flt z x"
  by (cases x; cases y; cases z) auto

lemma set_insort_lt: "set (insort_lt x xs) = insert x (set xs)"
  by (induction xs) auto

lemma set_sort_lt: "set (sort_lt xs) = set xs"
  by (induction xs) (auto simp: sort_lt_def set_insort_lt)

lemma length_insort_lt: "length (insort_lt x xs) = Suc (length xs)"
  by (induction xs) auto

lemma length_sort_lt: "length (sort_lt xs) = length xs"
  by (induction xs) (auto simp: sort_lt_def length_insort_lt)

lemma filter_insort_lt: "length (filter P (insort_lt x xs)) = length (filter P (x # xs))"
  by (induction xs) auto

lemma filter_sort_lt: "length (filter P (sort_lt xs)) = length (filter P xs)"
proof (induction xs)
  case Nil
  then show ?case by (simp add: sort_lt_def)
next
  case (Cons x xs)
  have "sort_lt (x # xs) = insort_lt x (sort_lt xs)" by (simp add: sort_lt_def)
  then show ?case using Cons by (simp add: filter_insort_lt)
qed

lemma sorted_insort_lt:
  assumes "sorted_wrt (\<lambda>a b. \<not> flt b a) ys" "NaN \<notin> set ys"
  shows "sorted_wrt (\<lambda>a b. \<not> flt b a) (insort_lt x ys)"
  using assms
proof (induction ys)
  case Nil
  then show ?case by simp
next
  case (Cons y ys)
  show ?case
  proof (cases "flt x y")
    case True
    have "\<not> flt z x" if "z \<in> set (y # ys)" for z
    proof -
      have "z \<noteq> NaN" using that Cons.prems(2) by auto
      moreover have "\<not> flt z y" using that Cons.prems(1) by (auto simp: flt_irrefl)
      ultimately show ?thesis using True flt_le_trans by blast
    qed
    then show ?thesis using True Cons.prems(1) by simp
  next
    case False
    then show ?thesis using Cons by (auto simp: set_insort_lt)
  qed
qed

lemma sorted_sort_lt:
  "NaN \<notin> set xs \<Longrightarrow> sorted_wrt (\<lambda>a b. \<not> flt b a) (sort_lt xs)"
proof (induction xs)
  case Nil
  then show ?case by (simp add: sort_lt_def)
next
  case (Cons x xs)
  have "sort_lt (x # xs) = insort_lt x (sort_lt xs)" by (simp add: sort_lt_def)
  then show ?case using Cons by (simp add: sorted_insort_lt set_sort_lt)
qed

lemma second_from_end_of_sorted:
  assumes "sorted_wrt (\<lambda>a b. \<not> flt b a) s" "2 \<le> length s"
  shows "length (filter (\<lambda>x. flt (s ! (length s - 2)) x) s) \<le> 1"
    and "2 \<le> length (filter (\<lambda>x. \<not> flt x (s ! (length s - 2))) s)"
proof -
  from assms(2) obtain ys d m where s: "s = ys @ [d, m]"
  proof -
    from assms(2) have "s \<noteq> []" by auto
    then obtain s' m where 1: "s = s' @ [m]" by (cases s rule: rev_cases) auto
    with assms(2) have "s' \<noteq> []" by auto
    then obtain ys d where "s' = ys @ [d]" by (cases s' rule: rev_cases) auto
    with 1 that show ?thesis by simp
  qed
  have d: "s ! (length s - 2) = d" by (simp add: s nth_append)
  have before: "\<forall>a\<in>set ys. \<not> flt d a" and last: "\<not> flt m d"
    using assms(1) by (auto simp: s sorted_wrt_append)
  have "filter (\<lambda>x. flt d x) ys = []" using before by (simp add: filter_empty_conv)
  then show "length (filter (\<lambda>x. flt (s ! (length s - 2)) x) s) \<le> 1"
    unfolding d by (simp add: s flt_irrefl)
  show "2 \<le> length (filter (\<lambda>x. \<not> flt x (s ! (length s - 2))) s)"
    unfolding d using last by (simp add: s flt_irrefl)
qed

lemma sort_lt_second_largest:
  assumes "NaN \<notin> set xs" "2 \<le> length xs"
  shows "is_second_largest (sort_lt xs ! (length xs - 2)) xs"
proof -
  let ?s = "sort_lt xs"
  have len: "length ?s = length xs" by (rule length_sort_lt)
  have srt: "sorted_wrt (\<lambda>a b. \<not> flt b a) ?s" using assms(1) by (rule sorted_sort_lt)
  have "?s ! (length xs - 2) \<in> set ?s" using assms(2) len by (intro nth_mem) simp
  then have mem: "?s ! (length xs - 2) \<in> set xs" by (simp add: set_sort_lt)
  from second_from_end_of_sorted[OF srt] assms(2) len
  have "length (filter (\<lambda>x. flt (?s ! (length xs - 2)) x) ?s) \<le> 1"
    and "2 \<le> length (filter (\<lambda>x. \<not> flt x (?s ! (length xs - 2))) ?s)"
    by simp_all
  then show ?thesis using mem by (simp add: is_second_largest_def filter_sort_lt)
qed

lemma concat_replicate_replicate:
  "concat (replicate n (replicate k v)) = replicate (n * k) v"
  by (induction n) (auto simp: replicate_add)

lemma bc_data_scalar:
  "length s = k \<Longrightarrow> bc_data (replicate k 1) s [v] = replicate (prod_list s) v"
proof (induction s arbitrary: k)
  case Nil
  then show ?case by simp
next
  case (Cons n ns)
  then obtain k' where k: "k = Suc k'" "length ns = k'" by (cases k) auto
  have ih: "bc_data (replicate k' 1) ns [v] = replicate (prod_list ns) v"
    using Cons.IH k(2) by simp
  have p: "prod_list (replicate k' (1::nat)) = 1" by (induction k') auto
  show ?case
  proof (cases "n = 1")
    case True
    have "chunks (prod_list (replicate k' 1)) 1 [v] = [[v]]"
      by (simp add: chunks_def p)
    then show ?thesis using ih by (simp add: k(1) True)
  next
    case False
    then show ?thesis using ih by (simp add: k(1) concat_replicate_replicate)
  qed
qed

lemma bc_shape_Nil_right: "bc_shape xs [] = Some xs"
  by (cases xs) auto

lemma nd_binop_scalar_right:
  assumes "wf_nd a"
  shows "nd_binop f a (NDArray [] [v]) = Inr (NDArray (shape a) (map (\<lambda>x. f x v) (data a)))"
proof -
  have "broadcast_to (shape a) (NDArray [] [v]) = replicate (length (data a)) v"
    using assms bc_data_scalar[of "shape a" "length (shape a)" v]
    by (simp add: broadcast_to_def wf_nd_def)
  then show ?thesis
    using assms broadcast_to_same[OF assms]
    by (simp add: nd_binop_def bc_shape_Nil_right map2_replicate_right)
qed

lemma transmission_one_dimensional:
  assumes "wf_nd (NDArray [n] ts)" "0 < n"
  shows "(case py_sorted (NDArray [n] ts) of
            Inl e \<Rightarrow> Inl e
          | Inr srt \<Rightarrow>
              (case nd_len (NDArray [n] ts) of
                 Inl e \<Rightarrow> Inl e
               | Inr m \<Rightarrow>
                   (case py_index_from_end srt (if m > 1 then 2 else 1) of
                      Inl e \<Rightarrow> Inl e
                    | Inr d \<Rightarrow> nd_binop fdiv (NDArray [n] ts) d)))
         = Inr (NDArray [n] (map (\<lambda>x. fdiv x (if n = 1 then ts ! 0 else sort_lt ts ! (n - 2))) ts))"
proof -
  have len: "length ts = n" using assms(1) by (simp add: wf_nd_def)
  show ?thesis
  proof (cases "n = 1")
    case True
    then obtain t where ts: "ts = [t]" using len by (cases ts) auto
    show ?thesis
      using True nd_binop_scalar_right[OF assms(1), of fdiv t]
      by (simp add: ts py_sorted_def nd_items_def nd_item_def nd_len_def py_index_from_end_def)
  next
    case False
    then have n2: "2 \<le> n" using assms(2) by simp
    have srt: "py_sorted (NDArray [n] ts) = Inr (map (\<lambda>v. NDArray [] [v]) (sort_lt ts))"
      using n2 by (simp add: py_sorted_def nd_items_def)
    have idx: "py_index_from_end (map (\<lambda>v. NDArray [] [v]) (sort_lt ts)) 2
        = Inr (NDArray [] [sort_lt ts ! (n - 2)])"
      using n2 len by (simp add: py_index_from_end_def length_sort_lt)
    show ?thesis
      using False n2 nd_binop_scalar_right[OF assms(1), of fdiv "sort_lt ts ! (n - 2)"]
      by (simp add: srt idx nd_len_def)
  qed
qed

text \<open>
  On one-dimensional data the normalisation is the one the comment in the source
  describes: with \<open>clear_ratio = 0\<close> every element of the ratio
  \<open>(PIN - PIN_dark) / (reference - ref_dark)\<close> is divided by its second-largest value, and
  by the only element when there is exactly one (shown for ratios without NaN, where
  the sorted order is determined).
\<close>

lemma transmission_auto_normalisation:
  assumes "shape PIN = [n]" "shape reference = [n]" "wf_nd PIN" "wf_nd reference" "0 < n"
    and "ts = map2 fdiv (map (\<lambda>x. fsub x PIN_dark) (data PIN))
                        (map (\<lambda>x. fsub x ref_dark) (data reference))"
    and "NaN \<notin> set ts"
  shows "\<exists>d. fcompute_transmission PIN reference (Fin 0) PIN_dark ref_dark
               = Inr (NDArray [n] (map (\<lambda>x. fdiv x d) ts))
           \<and> (if n = 1 then ts = [d] else is_second_largest d ts)"
proof -
  have ratio: "nd_binop fdiv (nd_map (\<lambda>x. fsub x PIN_dark) PIN)
                 (nd_map (\<lambda>x. fsub x ref_dark) reference) = Inr (NDArray [n] ts)"
    using assms(1-4,6) by (simp add: nd_binop_same_shape shape_nd_map wf_nd_map data_nd_map)
  have len: "length ts = n" using assms(1-4,6) by (simp add: wf_nd_def)
  then have wf: "wf_nd (NDArray [n] ts)" by (simp add: wf_nd_def)
  have res: "fcompute_transmission PIN reference (Fin 0) PIN_dark ref_dark
      = Inr (NDArray [n] (map (\<lambda>x. fdiv x (if n = 1 then ts ! 0 else sort_lt ts ! (n - 2))) ts))"
    unfolding fcompute_transmission_def ratio
    using transmission_one_dimensional[OF wf assms(5)] by (simp add: truthy_def)
  show ?thesis
  proof (cases "n = 1")
    case True
    then obtain t where "ts = [t]" using len by (cases ts) auto
    then show ?thesis using res True by auto
  next
    case False
    then have "2 \<le> length ts" using assms(5) len by simp
    from sort_lt_second_largest[OF assms(7) this] show ?thesis
      using res False len by auto
  qed
qed

lemma transmission_auto_normalisation_example:
  "fcompute_transmission (NDArray [3] [Fin 1, Fin 6, Fin 3]) (NDArray [3] [Fin 1, Fin 1, Fin 1])
      (Fin 0) (Fin 0) (Fin 0)
     = Inr (NDArray [3] [Fin (1 / 3), Fin 2, Fin 1])
   \<and> is_second_largest (Fin 3) [Fin 1, Fin 6, Fin 3]"
proof -
  have sl: "is_second_largest d [Fin 1, Fin 6, Fin 3] \<Longrightarrow> d = Fin 3" for d
    by (auto simp: is_second_largest_def)
  from transmission_auto_normalisation[of "NDArray [3] [Fin 1, Fin 6, Fin 3]" 3
      "NDArray [3] [Fin 1, Fin 1, Fin 1]" "[Fin 1, Fin 6, Fin 3]" "Fin 0" "Fin 0"]
  obtain d where res: "fcompute_transmission (NDArray [3] [Fin 1, Fin 6, Fin 3])
      (NDArray [3] [Fin 1, Fin 1, Fin 1]) (Fin 0) (Fin 0) (Fin 0)
     = Inr (NDArray [3] (map (\<lambda>x. fdiv x d) [Fin 1, Fin 6, Fin 3]))"
    and d: "is_second_largest d [Fin 1, Fin 6, Fin 3]"
    by (auto simp: wf_nd_def fsub_def)
  from sl[OF d] have "d = Fin 3" .
  then show ?thesis using res d by simp
qed

text \<open>
  Claim C3. The claim is that \<open>fcompute_transmission\<close> with \<open>clear_ratio = 0\<close> flattens
  and sorts the ratio of any input array and divides every element by the
  second-largest value. The source applies \<open>sorted\<close> and \<open>len\<close> to the array itself, that
  is to its first axis. On a 2 by 2 array \<open>sorted\<close> compares two rows, which has no truth
  value, and the call raises ValueError. On a 1 by 2 array \<open>len\<close> is 1, the divisor is
  the whole row and every element is divided by itself: the ratio \<open>[[1, 2]]\<close> comes out
  as \<open>[[1, 1]]\<close>, where the same data as a one-dimensional array gives \<open>[1, 2]\<close>. The
  path with a given \<open>clear_ratio\<close> takes the 2 by 2 array without complaint.
\<close>

theorem transmission_not_flattened:
  "fcompute_transmission (NDArray [2, 2] [Fin 1, Fin 2, Fin 3, Fin 4])
      (NDArray [2, 2] [Fin 1, Fin 1, Fin 1, Fin 1]) (Fin 0) (Fin 0) (Fin 0)
     = Inl ValueError
   \<and> fcompute_transmission (NDArray [1, 2] [Fin 1, Fin 2])
      (NDArray [1, 2] [Fin 1, Fin 1]) (Fin 0) (Fin 0) (Fin 0)
     = Inr (NDArray [1, 2] [Fin 1, Fin 1])
   \<and> fcompute_transmission (NDArray [2] [Fin 1, Fin 2])
      (NDArray [2] [Fin 1, Fin 1]) (Fin 0) (Fin 0) (Fin 0)
     = Inr (NDArray [2] [Fin 1, Fin 2])
   \<and> fcompute_transmission (NDArray [2, 2] [Fin 1, Fin 2, Fin 3, Fin 4])
      (NDArray [2, 2] [Fin 1, Fin 1, Fin 1, Fin 1]) (Fin 1) (Fin 0) (Fin 0)
     = Inr (NDArray [2, 2] [Fin 1, Fin 2, Fin 3, Fin 4])"
proof -
  have wf4: "wf_nd (NDArray [2, 2] [a, b, c, d])" for a b c d
    by (simp add: wf_nd_def)
  have wf2: "wf_nd (NDArray [2] [a, b])" for a b
    by (simp add: wf_nd_def)
  have ratio4: "nd_binop fdiv
       (nd_map (\<lambda>x. fsub x (Fin 0)) (NDArray [2, 2] [Fin 1, Fin 2, Fin 3, Fin 4]))
       (nd_map (\<lambda>x. fsub x (Fin 0)) (NDArray [2, 2] [Fin 1, Fin 1, Fin 1, Fin 1]))
     = Inr (NDArray [2, 2] [Fin 1, Fin 2, Fin 3, Fin 4])"
    by (simp add: nd_binop_same_shape shape_nd_map wf_nd_map wf4 data_nd_map fsub_def)
  have "py_sorted (NDArray [2, 2] [Fin 1, Fin 2, Fin 3, Fin 4]) = Inl ValueError"
    by (simp add: py_sorted_def nd_items_def)
  then have c1: "fcompute_transmission (NDArray [2, 2] [Fin 1, Fin 2, Fin 3, Fin 4])
      (NDArray [2, 2] [Fin 1, Fin 1, Fin 1, Fin 1]) (Fin 0) (Fin 0) (Fin 0) = Inl ValueError"
    by (simp add: fcompute_transmission_def ratio4 truthy_def)
  have ratio12: "nd_binop fdiv
       (nd_map (\<lambda>x. fsub x (Fin 0)) (NDArray [1, 2] [Fin 1, Fin 2]))
       (nd_map (\<lambda>x. fsub x (Fin 0)) (NDArray [1, 2] [Fin 1, Fin 1]))
     = Inr (NDArray [1, 2] [Fin 1, Fin 2])"
    using nd_binop_same_shape[of "nd_map (\<lambda>x. fsub x (Fin 0)) (NDArray [1, 2] [Fin 1, Fin 2])"
        "nd_map (\<lambda>x. fsub x (Fin 0)) (NDArray [1, 2] [Fin 1, Fin 1])" fdiv]
    by (simp add: shape_nd_map wf_nd_map wf_nd_def data_nd_map fsub_def)
  have srt12: "py_sorted (NDArray [1, 2] [Fin 1, Fin 2]) = Inr [NDArray [2] [Fin 1, Fin 2]]"
    by (simp add: py_sorted_def nd_items_def nd_item_def)
  have div12: "nd_binop fdiv (NDArray [1, 2] [Fin 1, Fin 2]) (NDArray [2] [Fin 1, Fin 2])
      = Inr (NDArray [1, 2] [Fin 1, Fin 1])"
    by (simp add: nd_binop_def broadcast_to_def chunks_def eval_nat_numeral)
  have c2: "fcompute_transmission (NDArray [1, 2] [Fin 1, Fin 2])
      (NDArray [1, 2] [Fin 1, Fin 1]) (Fin 0) (Fin 0) (Fin 0)
     = Inr (NDArray [1, 2] [Fin 1, Fin 1])"
    using ratio12 srt12 div12
    by (simp add: fcompute_transmission_def truthy_def nd_len_def py_index_from_end_def)
  have ratio2: "nd_binop fdiv
       (nd_map (\<lambda>x. fsub x (Fin 0)) (NDArray [2] [Fin 1, Fin 2]))
       (nd_map (\<lambda>x. fsub x (Fin 0)) (NDArray [2] [Fin 1, Fin 1]))
     = Inr (NDArray [2] [Fin 1, Fin 2])"
    by (simp add: nd_binop_same_shape shape_nd_map wf_nd_map wf2 data_nd_map fsub_def)
  have srt2: "py_sorted (NDArray [2] [Fin 1, Fin 2])
      = Inr [NDArray [] [Fin 1], NDArray [] [Fin 2]]"
    by (simp add: py_sorted_def nd_items_def sort_lt_def)
  have div2: "nd_binop fdiv (NDArray [2] [Fin 1, Fin 2]) (NDArray [] [Fin 1])
      = Inr (NDArray [2] [Fin 1, Fin 2])"
    using nd_binop_scalar_right[OF wf2, of fdiv "Fin 1" "Fin 2" "Fin 1"] by simp
  have c3: "fcompute_transmission (NDArray [2] [Fin 1, Fin 2])
      (NDArray [2] [Fin 1, Fin 1]) (Fin 0) (Fin 0) (Fin 0)
     = Inr (NDArray [2] [Fin 1, Fin 2])"
    by (simp add: fcompute_transmission_def ratio2 truthy_def srt2 nd_len_def
        py_index_from_end_def div2)
  have c4: "fcompute_transmission (NDArray [2, 2] [Fin 1, Fin 2, Fin 3, Fin 4])
      (NDArray [2, 2] [Fin 1, Fin 1, Fin 1, Fin 1]) (Fin 1) (Fin 0) (Fin 0)
     = Inr (NDArray [2, 2] [Fin 1, Fin 2, Fin 3, Fin 4])"
    unfolding fcompute_transmission_def ratio4 by (simp add: truthy_def nd_map_def)
  show ?thesis using c1 c2 c3 c4 by simp
qed

end
